theory Spec2Isabelle
  imports Main "HOL-Library.Sublist"
begin

section \<open>Python values\<close>

text \<open>
  A Python \<open>str\<close> is a sequence of Unicode code points, so it is modelled as a list of
  natural numbers. The source's messages and its prompt are written in Chinese; they are
  given below code point by code point. \<open>ascii\<close> reads an ASCII literal as such a string.
\<close>

type_synonym pystr = "nat list"

definition ascii :: "string \<Rightarrow> pystr" where
  "ascii s = map of_char s"

text \<open>
  The objects the program handles: \<open>None\<close>, strings, and references to list objects.
  A list object lives in the heap at an address; \<open>source_list = []\<close> allocates one and
  \<open>source_list.append(source)\<close> mutates it in place. A dict literal with the source's
  keys is an association list.
\<close>

type_synonym addr = nat

datatype pyobj = PyNone | PyStr pystr | PyList addr

type_synonym pydict = "(string \<times> pyobj) list"

type_synonym heap = "pydict list list"

definition new_list :: "heap \<Rightarrow> addr \<times> heap" where
  "new_list h = (length h, h @ [[]])"

definition list_append :: "heap \<Rightarrow> addr \<Rightarrow> pydict \<Rightarrow> heap" where
  "list_append h a d = h[a := h ! a @ [d]]"

definition list_at :: "heap \<Rightarrow> addr \<Rightarrow> pydict list option" where
  "list_at h a = (if a < length h then Some (h ! a) else None)"

text \<open>
  An exception is an instance of \<open>Exception\<close>; all the program ever does with one is
  format it into a message, so it carries its \<open>str(e)\<close>.
\<close>

datatype exception = Exception (str: pystr)

section \<open>The provider SDK\<close>

text \<open>
  The provider's response object, as far as the program reads it. The attributes are
  optional: \<open>candidates\<close> and \<open>grounding_chunks\<close> are lists or \<open>None\<close>,
  \<open>grounding_metadata\<close> and \<open>web\<close> are objects or \<open>None\<close>, and \<open>uri\<close>, \<open>title\<close>
  hold a string or \<open>None\<close>. \<open>text\<close> is not a stored attribute but a property computed
  from the response's parts on every read: the read yields a string or \<open>None\<close>, or raises.
\<close>

record GroundingChunkWeb =
  uri :: pyobj
  title :: pyobj

record GroundingChunk =
  web :: "GroundingChunkWeb option"

record GroundingMetadata =
  grounding_chunks :: "GroundingChunk list option"

record Candidate =
  grounding_metadata :: "GroundingMetadata option"

record GenerateContentResponse =
  candidates :: "Candidate list option"
  "text" :: "exception + pyobj"

text \<open>
  The arguments of \<open>client.models.generate_content\<close>: the model name, the prompt and
  the configuration, whose only setting is the list of tools.
\<close>

datatype Tool = GoogleSearch

record GenerateContentConfig =
  tools :: "Tool list"

record GenerateContentArgs =
  model :: pystr
  contents :: pystr
  config :: GenerateContentConfig

text \<open>
  The call either raises or returns a response. What the service answers is not the
  program's to decide, so the call is a parameter of everything below.
\<close>

type_synonym provider = "GenerateContentArgs \<Rightarrow> exception + GenerateContentResponse"

text \<open>
  What is observable of a run besides its result: the calls sent to the provider, oldest
  first, and the heap of list objects.
\<close>

record world =
  calls :: "GenerateContentArgs list"
  heap :: heap

section \<open>The core function\<close>

subsection \<open>The prompt\<close>

definition prompt_before_keyword :: pystr where
  "prompt_before_keyword = [0x8ACB, 0x91DD, 0x5C0D, 0x95DC, 0x9375, 0x5B57, 0x300E]"

definition prompt_after_keyword :: pystr where
  "prompt_after_keyword =
     [0x300F, 0xFF0C, 0x641C, 0x5C0B, 0x4E26, 0x7E3D, 0x7D50, 0x5176, 0x6700, 0x8FD1, 0x4E00,
      0x500B, 0x6708, 0x5167, 0x6700, 0x76F8, 0x95DC, 0x7684, 0x65B0, 0x805E, 0x8207, 0x4E8B,
      0x4EF6, 0x3002]"

definition prompt_format_request :: pystr where
  "prompt_format_request =
     [0x8ACB, 0x53EA, 0x56DE, 0x50B3, 0x65B0, 0x805E, 0x6A19, 0x984C, 0x4EE5, 0x53CA, 0x65B0,
      0x805E, 0x7DB2, 0x5740, 0xFF0C, 0x4E26, 0x5C07, 0x6A19, 0x984C, 0x548C, 0x7DB2, 0x5740,
      0x6574, 0x7406, 0x6210, 0x4E00, 0x500B, 0x4D, 0x61, 0x72, 0x6B, 0x64, 0x6F, 0x77, 0x6E,
      0x683C, 0x5F0F, 0x7684, 0x5217, 0x8868, 0x3002]"

text \<open>Two adjacent f-strings; the keyword is interpolated into the first.\<close>

definition prompt_of :: "pystr \<Rightarrow> pystr" where
  "prompt_of keyword =
     (prompt_before_keyword @ keyword @ prompt_after_keyword) @ prompt_format_request"

definition gemini_model :: pystr where
  "gemini_model = ascii ''gemini-2.5-flash''"

subsection \<open>Collecting the citations\<close>

text \<open>
  The loop \<open>for chunk in metadata.grounding_chunks\<close>: a chunk with a web citation
  appends the dict of its \<open>uri\<close> and \<open>title\<close> to the list object \<open>source_list\<close>.
\<close>

fun for_chunks :: "heap \<Rightarrow> addr \<Rightarrow> GroundingChunk list \<Rightarrow> heap" where
  "for_chunks h source_list [] = h"
| "for_chunks h source_list (chunk # rest) =
     (case web chunk of
        None \<Rightarrow> for_chunks h source_list rest
      | Some w \<Rightarrow>
          for_chunks (list_append h source_list [(''uri'', uri w), (''title'', title w)])
            source_list rest)"

text \<open>
  The guards around the loop test truthiness: \<open>None\<close> and the empty list are both false,
  so \<open>candidates[0]\<close> is only read from a non-empty list.
\<close>

definition process_citations :: "heap \<Rightarrow> addr \<Rightarrow> GenerateContentResponse \<Rightarrow> heap" where
  "process_citations h source_list r =
     (case candidates r of
        None \<Rightarrow> h
      | Some [] \<Rightarrow> h
      | Some (candidate # _) \<Rightarrow>
          (case grounding_metadata candidate of
             None \<Rightarrow> h
           | Some metadata \<Rightarrow>
               (case grounding_chunks metadata of
                  None \<Rightarrow> h
                | Some [] \<Rightarrow> h
                | Some (chunk # rest) \<Rightarrow> for_chunks h source_list (chunk # rest))))"

subsection \<open>The guarded block and its handler\<close>

text \<open>
  The body of \<open>try\<close>: the provider call, the fresh list, the walk over the citations and
  the read of \<open>text\<close>, in this order. An exception leaves the block at the point where it
  is raised, with the effects made so far.
\<close>

definition try_block ::
  "provider \<Rightarrow> GenerateContentArgs \<Rightarrow> world \<Rightarrow> (exception + pydict) \<times> world" where
  "try_block generate_content args w =
     (let w1 = w\<lparr>calls := calls w @ [args]\<rparr> in
      case generate_content args of
        Inl e \<Rightarrow> (Inl e, w1)
      | Inr r \<Rightarrow>
          (let (source_list, h) = new_list (heap w1);
               w2 = w1\<lparr>heap := process_citations h source_list r\<rparr>
           in case text r of
                Inl e \<Rightarrow> (Inl e, w2)
              | Inr t \<Rightarrow> (Inr [(''response'', t), (''source'', PyList source_list)], w2)))"

record HTTPException =
  status_code :: nat
  detail :: pystr

definition error_prefix :: pystr where
  "error_prefix =
     [0x47, 0x65, 0x6D, 0x69, 0x6E, 0x69, 0x20, 0x41, 0x50, 0x49, 0x20, 0x8655, 0x7406, 0x932F,
      0x8AA4, 0x3A, 0x20]"

text \<open>
  \<open>except Exception as e\<close> turns whatever the block raised into an \<open>HTTPException\<close>
  with status 500 and the formatted exception after a fixed prefix.
\<close>

definition generate_grounded_content ::
  "provider \<Rightarrow> pystr \<Rightarrow> world \<Rightarrow> (HTTPException + pydict) \<times> world" where
  "generate_grounded_content generate_content keyword w =
     (let prompt = prompt_of keyword;
          grounding_tool = GoogleSearch;
          config = \<lparr>tools = [grounding_tool]\<rparr>
      in case try_block generate_content
                \<lparr>model = gemini_model, contents = prompt, config = config\<rparr> w of
           (Inr output, w') \<Rightarrow> (Inr output, w')
         | (Inl e, w') \<Rightarrow> (Inl \<lparr>status_code = 500, detail = error_prefix @ str e\<rparr>, w'))"

subsection \<open>The citations, as a list comprehension\<close>

text \<open>
  The grounding chunks of the first candidate, if there are any, and one dict for each
  chunk that has a web citation, in the order of the chunks.
\<close>

definition grounding_chunks_of :: "GenerateContentResponse \<Rightarrow> GroundingChunk list" where
  "grounding_chunks_of r =
     (case candidates r of
        Some (candidate # _) \<Rightarrow>
          (case grounding_metadata candidate of
             Some metadata \<Rightarrow> (case grounding_chunks metadata of Some chunks \<Rightarrow> chunks | None \<Rightarrow> [])
           | None \<Rightarrow> [])
      | _ \<Rightarrow> [])"

definition web_citations :: "GroundingChunk list \<Rightarrow> pydict list" where
  "web_citations chunks =
     map (\<lambda>w. [(''uri'', uri w), (''title'', title w)]) (List.map_filter web chunks)"

abbreviation provider_call :: "pystr \<Rightarrow> GenerateContentArgs" where
  "provider_call keyword \<equiv>
     \<lparr>model = gemini_model, contents = prompt_of keyword, config = \<lparr>tools = [GoogleSearch]\<rparr>\<rparr>"

section \<open>The HTTP endpoints\<close>

text \<open>
  What goes over the wire is JSON. The request body has been checked against
  \<open>PromptRequest\<close> before the handler runs, so the handler receives a \<open>keyword\<close> that
  is a string.
\<close>

datatype json = JNull | JStr pystr | JArr "json list" | JObj "(string \<times> json) list"

datatype http_body = JSON json | PlainText pystr

record http_response =
  status :: nat
  body :: http_body

record PromptRequest =
  keyword :: pystr

definition search_news_api ::
  "provider \<Rightarrow> PromptRequest \<Rightarrow> world \<Rightarrow> (HTTPException + pydict) \<times> world" where
  "search_news_api generate_content request w =
     generate_grounded_content generate_content (keyword request) w"

text \<open>
  \<open>SearchSource\<close> and \<open>SearchResponse\<close> are never instantiated by the program: they are
  the \<open>response_model\<close> of the route, against which the framework checks what the handler
  returned before it serialises it. A field declared \<open>str\<close> must be present and hold a
  string; \<open>None\<close> does not pass. The list behind \<open>source\<close> is read from the heap as it
  is when the handler returns.
\<close>

definition SearchSource :: "pydict \<Rightarrow> json option" where
  "SearchSource d =
     (case (map_of d ''uri'', map_of d ''title'') of
        (Some (PyStr u), Some (PyStr t)) \<Rightarrow> Some (JObj [(''uri'', JStr u), (''title'', JStr t)])
      | _ \<Rightarrow> None)"

definition SearchResponse :: "heap \<Rightarrow> pydict \<Rightarrow> json option" where
  "SearchResponse h d =
     (case (map_of d ''response'', map_of d ''source'') of
        (Some (PyStr s), Some (PyList a)) \<Rightarrow>
          (case list_at h a of
             None \<Rightarrow> None
           | Some ds \<Rightarrow>
               (case those (map SearchSource ds) of
                  None \<Rightarrow> None
                | Some js \<Rightarrow> Some (JObj [(''response'', JStr s), (''source'', JArr js)])))
      | _ \<Rightarrow> None)"

text \<open>
  What the response model asks of the provider's data: a web citation passes when its
  \<open>uri\<close> and its \<open>title\<close> are strings; a chunk without one is not looked at.
\<close>

fun is_str :: "pyobj \<Rightarrow> bool" where
  "is_str (PyStr s) = True"
| "is_str _ = False"

definition str_citation :: "GroundingChunk \<Rightarrow> bool" where
  "str_citation chunk =
     (case web chunk of None \<Rightarrow> True | Some w \<Rightarrow> is_str (uri w) \<and> is_str (title w))"

text \<open>
  The route \<open>POST /search-news\<close>. An \<open>HTTPException\<close> becomes a response with its
  status code and the body \<open>{"detail": ...}\<close>. A result that fails the response model is
  an error of the server: status 500 with the plain text below, and no JSON body.
\<close>

definition internal_server_error :: http_response where
  "internal_server_error = \<lparr>status = 500, body = PlainText (ascii ''Internal Server Error'')\<rparr>"

definition post_search_news :: "provider \<Rightarrow> PromptRequest \<Rightarrow> world \<Rightarrow> http_response \<times> world" where
  "post_search_news generate_content request w =
     (case search_news_api generate_content request w of
        (Inl e, w') \<Rightarrow>
          (\<lparr>status = status_code e, body = JSON (JObj [(''detail'', JStr (detail e))])\<rparr>, w')
      | (Inr result, w') \<Rightarrow>
          (case SearchResponse (heap w') result of
             None \<Rightarrow> (internal_server_error, w')
           | Some j \<Rightarrow> (\<lparr>status = 200, body = JSON j\<rparr>, w')))"

text \<open>The route \<open>GET /callback\<close>: the handler takes no argument and returns a dict literal.\<close>

definition read_root :: json where
  "read_root = JObj [(''status'', JStr (ascii ''OK''))]"

definition get_callback :: http_response where
  "get_callback = \<lparr>status = 200, body = JSON read_root\<rparr>"

section \<open>Start-up and the running process\<close>

text \<open>
  The module body runs once, when the server loads the application: it loads the
  \<open>.env\<close> file into the environment, reads the credential, constructs the client and
  only then defines the application and its routes. An exception raised on the way ends
  the load, so there is no application to serve requests with.
\<close>

type_synonym environ = "string \<Rightarrow> pystr option"

datatype startup_error = ValueError pystr | RuntimeError pystr

definition missing_key_message :: pystr where
  "missing_key_message =
     [0x47, 0x45, 0x4D, 0x49, 0x4E, 0x49, 0x5F, 0x41, 0x50, 0x49, 0x5F, 0x4B, 0x45, 0x59, 0x20,
      0x74B0, 0x5883, 0x8B8A, 0x6578, 0x907A, 0x5931, 0x3002, 0x8ACB, 0x6AA2, 0x67E5, 0x20, 0x2E,
      0x65, 0x6E, 0x76, 0x20, 0x6A94, 0x6848, 0x6216, 0x74B0, 0x5883, 0x8A2D, 0x5B9A, 0x3002]"

definition client_error_prefix :: pystr where
  "client_error_prefix =
     [0x7121, 0x6CD5, 0x521D, 0x59CB, 0x5316, 0x20, 0x47, 0x65, 0x6D, 0x69, 0x6E, 0x69, 0x20,
      0x43, 0x6C, 0x69, 0x65, 0x6E, 0x74, 0x3A, 0x20]"

record globals =
  GEMINI_API_KEY :: pystr
  client :: provider

text \<open>
  \<open>load_dotenv\<close> is the effect of \<open>dotenv.load_dotenv()\<close> on the environment and
  \<open>Client\<close> the constructor \<open>genai.Client(api_key=...)\<close>, which raises or returns a
  client; both belong to libraries and are parameters. \<open>if not GEMINI_API_KEY\<close> is
  true of \<open>None\<close> and of the empty string.
\<close>

definition startup ::
  "(environ \<Rightarrow> environ) \<Rightarrow> (pystr \<Rightarrow> exception + provider) \<Rightarrow> environ \<Rightarrow> startup_error + globals" where
  "startup load_dotenv Client environ =
     (case load_dotenv environ ''GEMINI_API_KEY'' of
        None \<Rightarrow> Inl (ValueError missing_key_message)
      | Some key \<Rightarrow>
          if key = [] then Inl (ValueError missing_key_message)
          else
            (case Client key of
               Inl e \<Rightarrow> Inl (RuntimeError (client_error_prefix @ str e))
             | Inr c \<Rightarrow> Inr \<lparr>GEMINI_API_KEY = key, client = c\<rparr>))"

datatype http_request = POST_search_news PromptRequest | GET_callback

fun app :: "globals \<Rightarrow> http_request \<Rightarrow> world \<Rightarrow> http_response \<times> world" where
  "app g (POST_search_news request) w = post_search_news (client g) request w"
| "app g GET_callback w = (get_callback, w)"

fun serve :: "globals \<Rightarrow> http_request list \<Rightarrow> world \<Rightarrow> http_response list \<times> world" where
  "serve g [] w = ([], w)"
| "serve g (request # rest) w =
     (let (answer, w1) = app g request w;
          (answers, w2) = serve g rest w1
      in (answer # answers, w2))"

text \<open>A process answers requests only once its module has loaded.\<close>

definition run_process ::
  "(environ \<Rightarrow> environ) \<Rightarrow> (pystr \<Rightarrow> exception + provider) \<Rightarrow> environ \<Rightarrow>
     http_request list \<Rightarrow> world \<Rightarrow> startup_error + (http_response list \<times> world)" where
  "run_process load_dotenv Client environ requests w =
     (case startup load_dotenv Client environ of
        Inl e \<Rightarrow> Inl e
      | Inr g \<Rightarrow> Inr (serve g requests w))"

section \<open>Example responses\<close>

text \<open>
  A provider that gives one fixed outcome, a world in which nothing has happened yet, and
  the responses used as concrete inputs below: the news example with two web citations
  around a chunk that has none, a second answer with a citation of its own, a response
  with a candidate and no grounding metadata, a response without candidates whose
  \<open>text\<close> is \<open>None\<close>, one whose only citation has no title, and one whose
  \<open>text\<close> cannot be read.
\<close>

definition answering :: "exception + GenerateContentResponse \<Rightarrow> provider" where
  "answering outcome = (\<lambda>args. outcome)"

definition idle :: world where
  "idle = \<lparr>calls = [], heap = []\<rparr>"

definition cited :: "string \<Rightarrow> string \<Rightarrow> GroundingChunk" where
  "cited u t = \<lparr>web = Some \<lparr>uri = PyStr (ascii u), title = PyStr (ascii t)\<rparr>\<rparr>"

definition grounded :: "pyobj \<Rightarrow> GroundingChunk list \<Rightarrow> GenerateContentResponse" where
  "grounded t chunks =
     \<lparr>candidates = Some [\<lparr>grounding_metadata = Some \<lparr>grounding_chunks = Some chunks\<rparr>\<rparr>],
      text = Inr t\<rparr>"

definition news_text :: pystr where
  "news_text = ascii ''- News A (url1)'' @ [0x0A] @ ascii ''- News B (url2)''"

definition news_response :: GenerateContentResponse where
  "news_response =
     grounded (PyStr news_text) [cited ''uri1'' ''title1'', \<lparr>web = None\<rparr>, cited ''uri2'' ''title2'']"

definition other_response :: GenerateContentResponse where
  "other_response = grounded (PyStr (ascii ''- News C (url3)'')) [cited ''uri3'' ''title3'']"

definition ungrounded_response :: GenerateContentResponse where
  "ungrounded_response =
     \<lparr>candidates = Some [\<lparr>grounding_metadata = None\<rparr>], text = Inr (PyStr news_text)\<rparr>"

definition blocked_response :: GenerateContentResponse where
  "blocked_response = \<lparr>candidates = None, text = Inr PyNone\<rparr>"

definition untitled_response :: GenerateContentResponse where
  "untitled_response =
     grounded (PyStr (ascii ''- News A (url1)''))
       [\<lparr>web = Some \<lparr>uri = PyStr (ascii ''uri1''), title = PyNone\<rparr>\<rparr>]"

definition mixed_parts_response :: GenerateContentResponse where
  "mixed_parts_response =
     \<lparr>candidates = Some [\<lparr>grounding_metadata = Some \<lparr>grounding_chunks = Some [cited ''uri1'' ''title1'']\<rparr>\<rparr>],
      text = Inl (Exception (ascii ''only text parts are supported''))\<rparr>"

section \<open>What one call does\<close>

text \<open>
  The loop appends to the list object it is given and touches no other: after it, the
  list holds what it held before, followed by the citations of the chunks.
\<close>

lemma web_citations_Nil: "web_citations [] = []"
  by (simp add: web_citations_def)

lemma web_citations_Cons:
  "web_citations (chunk # rest) =
     (case web chunk of
        None \<Rightarrow> web_citations rest
      | Some w \<Rightarrow> [(''uri'', uri w), (''title'', title w)] # web_citations rest)"
  by (simp add: web_citations_def split: option.split)

lemma web_citations_append:
  "web_citations (xs @ ys) = web_citations xs @ web_citations ys"
  by (simp add: web_citations_def map_filter_def)

lemma length_web_citations:
  "length (web_citations chunks) = length (filter (\<lambda>chunk. web chunk \<noteq> None) chunks)"
  by (induction chunks) (simp_all add: web_citations_Nil web_citations_Cons split: option.split)

lemma for_chunks_appends:
  "a < length h \<Longrightarrow> for_chunks h a chunks = h[a := h ! a @ web_citations chunks]"
proof (induction chunks arbitrary: h)
  case Nil
  then show ?case by (simp add: web_citations_Nil)
next
  case (Cons chunk rest)
  show ?case
  proof (cases "web chunk")
    case None
    with Cons show ?thesis by (simp add: web_citations_Cons)
  next
    case (Some w)
    have "a < length (list_append h a [(''uri'', uri w), (''title'', title w)])"
      using Cons.prems by (simp add: list_append_def)
    from Cons.IH [OF this] Some Cons.prems show ?thesis
      by (simp add: web_citations_Cons list_append_def)
  qed
qed

lemma process_citations_appends:
  "a < length h \<Longrightarrow>
     process_citations h a r = h[a := h ! a @ web_citations (grounding_chunks_of r)]"
  by (simp add: process_citations_def grounding_chunks_of_def for_chunks_appends web_citations_Nil
      del: for_chunks.simps split: option.split list.split)

lemma new_list_citations:
  "process_citations (h @ [[]]) (length h) r = h @ [web_citations (grounding_chunks_of r)]"
  by (simp add: process_citations_appends)

text \<open>
  The function as a whole: the call is logged, and when it returns, a list is allocated
  at the end of the heap and filled before \<open>text\<close> is read.
\<close>

lemma try_block_raises:
  "generate_content args = Inl e \<Longrightarrow>
     try_block generate_content args w = (Inl e, w\<lparr>calls := calls w @ [args]\<rparr>)"
  by (simp add: try_block_def)

lemma try_block_returns:
  "generate_content args = Inr r \<Longrightarrow>
     try_block generate_content args w =
       (case text r of
          Inl e \<Rightarrow> Inl e
        | Inr t \<Rightarrow> Inr [(''response'', t), (''source'', PyList (length (heap w)))],
        \<lparr>calls = calls w @ [args], heap = heap w @ [web_citations (grounding_chunks_of r)]\<rparr>)"
  by (simp add: try_block_def new_list_def new_list_citations split: sum.split)

lemma generate_grounded_content_raises:
  "generate_content (provider_call kw) = Inl e \<Longrightarrow>
     generate_grounded_content generate_content kw w =
       (Inl \<lparr>status_code = 500, detail = error_prefix @ str e\<rparr>,
        w\<lparr>calls := calls w @ [provider_call kw]\<rparr>)"
  by (simp add: generate_grounded_content_def try_block_raises)

lemma generate_grounded_content_returns:
  "generate_content (provider_call kw) = Inr r \<Longrightarrow>
     generate_grounded_content generate_content kw w =
       (case text r of
          Inl e \<Rightarrow> Inl \<lparr>status_code = 500, detail = error_prefix @ str e\<rparr>
        | Inr t \<Rightarrow> Inr [(''response'', t), (''source'', PyList (length (heap w)))],
        \<lparr>calls = calls w @ [provider_call kw],
         heap = heap w @ [web_citations (grounding_chunks_of r)]\<rparr>)"
  by (simp add: generate_grounded_content_def try_block_returns split: sum.split)

lemma generate_grounded_content_handler:
  "try_block generate_content (provider_call kw) w = (Inl e, w') \<Longrightarrow>
     generate_grounded_content generate_content kw w =
       (Inl \<lparr>status_code = 500, detail = error_prefix @ str e\<rparr>, w')"
  by (simp add: generate_grounded_content_def)

lemma search_news_api_raises:
  "generate_content (provider_call (keyword request)) = Inl e \<Longrightarrow>
     search_news_api generate_content request w =
       (Inl \<lparr>status_code = 500, detail = error_prefix @ str e\<rparr>,
        w\<lparr>calls := calls w @ [provider_call (keyword request)]\<rparr>)"
  by (simp add: search_news_api_def generate_grounded_content_raises)

section \<open>The successful path\<close>

text \<open>
  C1. When the provider call returns a response and the read of its \<open>text\<close> yields
  \<open>t\<close>, the function returns the dict whose \<open>response\<close> is \<open>t\<close> and whose \<open>source\<close>
  is the list object allocated by this call; that list holds one \<open>uri\<close>/\<open>title\<close> dict
  for each grounding chunk with a web citation, in the order of the chunks, and nothing
  for the chunks without one.
\<close>

theorem handle_returns_text_and_citations:
  assumes "generate_content (provider_call kw) = Inr r" and "text r = Inr t"
  shows "fst (generate_grounded_content generate_content kw w) =
           Inr [(''response'', t), (''source'', PyList (length (heap w)))] \<and>
         list_at (heap (snd (generate_grounded_content generate_content kw w))) (length (heap w)) =
           Some (web_citations (grounding_chunks_of r))"
  using assms by (simp add: generate_grounded_content_returns list_at_def)

text \<open>
  The news example: the chunk without a web citation, between the two that have one,
  leaves no entry.
\<close>

theorem handle_returns_text_and_citations_witness:
  "answering (Inr news_response) (provider_call (ascii ''generative AI'')) = Inr news_response \<and>
   text news_response = Inr (PyStr news_text) \<and>
   fst (generate_grounded_content (answering (Inr news_response)) (ascii ''generative AI'') idle) =
     Inr [(''response'', PyStr news_text), (''source'', PyList 0)] \<and>
   list_at (heap (snd (generate_grounded_content (answering (Inr news_response))
       (ascii ''generative AI'') idle))) 0 =
     Some [[(''uri'', PyStr (ascii ''uri1'')), (''title'', PyStr (ascii ''title1''))],
           [(''uri'', PyStr (ascii ''uri2'')), (''title'', PyStr (ascii ''title2''))]]"
proof -
  have called: "answering (Inr news_response) (provider_call (ascii ''generative AI'')) = Inr news_response"
    by (simp add: answering_def)
  have read: "text news_response = Inr (PyStr news_text)"
    by (simp add: news_response_def grounded_def)
  have "web_citations (grounding_chunks_of news_response) =
      [[(''uri'', PyStr (ascii ''uri1'')), (''title'', PyStr (ascii ''title1''))],
       [(''uri'', PyStr (ascii ''uri2'')), (''title'', PyStr (ascii ''title2''))]]"
    by (simp add: news_response_def grounded_def cited_def grounding_chunks_of_def web_citations_def)
  with called read
    handle_returns_text_and_citations [of "answering (Inr news_response)"
      "ascii ''generative AI''" news_response "PyStr news_text" idle]
  show ?thesis by (simp add: idle_def)
qed

text \<open>
  C4. When the response has no candidates (\<open>None\<close> or an empty list), or its first
  candidate has no grounding metadata, or that metadata has no grounding chunks
  (\<open>None\<close> or an empty list), the returned \<open>source\<close> is the empty list and the
  returned \<open>response\<close> is the provider's text.
\<close>

theorem no_grounding_gives_empty_source:
  assumes "generate_content (provider_call kw) = Inr r" and "text r = Inr t"
    and "candidates r = None \<or> candidates r = Some [] \<or>
         (\<exists>c cs. candidates r = Some (c # cs) \<and>
            (grounding_metadata c = None \<or>
             (\<exists>m. grounding_metadata c = Some m \<and>
                (grounding_chunks m = None \<or> grounding_chunks m = Some []))))"
  shows "fst (generate_grounded_content generate_content kw w) =
           Inr [(''response'', t), (''source'', PyList (length (heap w)))] \<and>
         list_at (heap (snd (generate_grounded_content generate_content kw w))) (length (heap w)) =
           Some []"
proof -
  from assms(3) have "grounding_chunks_of r = []"
    by (auto simp: grounding_chunks_of_def)
  with assms(1,2) show ?thesis
    by (simp add: generate_grounded_content_returns list_at_def web_citations_Nil)
qed

theorem no_grounding_gives_empty_source_witness:
  "answering (Inr ungrounded_response) (provider_call (ascii ''generative AI'')) =
     Inr ungrounded_response \<and>
   text ungrounded_response = Inr (PyStr news_text) \<and>
   candidates ungrounded_response = Some [\<lparr>grounding_metadata = None\<rparr>] \<and>
   grounding_metadata \<lparr>grounding_metadata = None\<rparr> = None \<and>
   fst (generate_grounded_content (answering (Inr ungrounded_response)) (ascii ''generative AI'') idle) =
     Inr [(''response'', PyStr news_text), (''source'', PyList 0)] \<and>
   list_at (heap (snd (generate_grounded_content (answering (Inr ungrounded_response))
       (ascii ''generative AI'') idle))) 0 = Some []"
  using no_grounding_gives_empty_source [of "answering (Inr ungrounded_response)"
      "ascii ''generative AI''" ungrounded_response "PyStr news_text" idle]
  by (simp add: answering_def ungrounded_response_def idle_def)

section \<open>Errors of the provider and of the extraction\<close>

text \<open>
  C2. When the provider call raises, the endpoint answers with status 500 and the body
  \<open>{"detail": ...}\<close>, whose string is the fixed prefix followed by the exception's
  message. The provider has been called exactly once, no list has been allocated, and
  the body carries nothing else.
\<close>

theorem provider_error_is_http_500:
  assumes "generate_content (provider_call (keyword request)) = Inl e"
  shows "post_search_news generate_content request w =
           (\<lparr>status = 500, body = JSON (JObj [(''detail'', JStr (error_prefix @ str e))])\<rparr>,
            w\<lparr>calls := calls w @ [provider_call (keyword request)]\<rparr>) \<and>
         sublist (str e) (error_prefix @ str e)"
  using assms by (simp add: post_search_news_def search_news_api_raises)

theorem provider_error_is_http_500_witness:
  "answering (Inl (Exception (ascii ''429 RESOURCE_EXHAUSTED'')))
       (provider_call (keyword \<lparr>keyword = ascii ''generative AI''\<rparr>)) =
     Inl (Exception (ascii ''429 RESOURCE_EXHAUSTED'')) \<and>
   post_search_news (answering (Inl (Exception (ascii ''429 RESOURCE_EXHAUSTED''))))
       \<lparr>keyword = ascii ''generative AI''\<rparr> idle =
     (\<lparr>status = 500,
       body = JSON (JObj [(''detail'', JStr (error_prefix @ ascii ''429 RESOURCE_EXHAUSTED''))])\<rparr>,
      \<lparr>calls = [provider_call (ascii ''generative AI'')], heap = []\<rparr>)"
  using provider_error_is_http_500 [of "answering (Inl (Exception (ascii ''429 RESOURCE_EXHAUSTED'')))"
      "\<lparr>keyword = ascii ''generative AI''\<rparr>" "Exception (ascii ''429 RESOURCE_EXHAUSTED'')" idle]
  by (simp add: answering_def idle_def)

text \<open>
  C9. The handler covers everything inside \<open>try\<close>, not only the provider call: when
  the call has returned a response and the block still leaves with an exception, raised
  while the fields are taken from that response, the endpoint answers with the same
  status 500 and the same \<open>detail\<close> format, carrying that exception's message. Of the
  reads the block makes, the one that can raise is that of \<open>text\<close>.
\<close>

theorem extraction_error_is_http_500:
  assumes "generate_content (provider_call (keyword request)) = Inr r"
    and "try_block generate_content (provider_call (keyword request)) w = (Inl e, w')"
  shows "post_search_news generate_content request w =
           (\<lparr>status = 500, body = JSON (JObj [(''detail'', JStr (error_prefix @ str e))])\<rparr>, w') \<and>
         sublist (str e) (error_prefix @ str e) \<and>
         text r = Inl e"
proof -
  from assms have "text r = Inl e"
    by (simp add: try_block_returns split: sum.splits)
  with assms(2) show ?thesis
    by (simp add: post_search_news_def search_news_api_def generate_grounded_content_handler)
qed

theorem extraction_error_is_http_500_witness:
  "answering (Inr mixed_parts_response)
       (provider_call (keyword \<lparr>keyword = ascii ''generative AI''\<rparr>)) = Inr mixed_parts_response \<and>
   try_block (answering (Inr mixed_parts_response))
       (provider_call (keyword \<lparr>keyword = ascii ''generative AI''\<rparr>)) idle =
     (Inl (Exception (ascii ''only text parts are supported'')),
      \<lparr>calls = [provider_call (ascii ''generative AI'')],
       heap = [[[(''uri'', PyStr (ascii ''uri1'')), (''title'', PyStr (ascii ''title1''))]]]\<rparr>) \<and>
   post_search_news (answering (Inr mixed_parts_response))
       \<lparr>keyword = ascii ''generative AI''\<rparr> idle =
     (\<lparr>status = 500,
       body = JSON (JObj [(''detail'', JStr (error_prefix @ ascii ''only text parts are supported''))])\<rparr>,
      \<lparr>calls = [provider_call (ascii ''generative AI'')],
       heap = [[[(''uri'', PyStr (ascii ''uri1'')), (''title'', PyStr (ascii ''title1''))]]]\<rparr>)"
proof -
  have called: "answering (Inr mixed_parts_response)
      (provider_call (keyword \<lparr>keyword = ascii ''generative AI''\<rparr>)) = Inr mixed_parts_response"
    by (simp add: answering_def)
  have "web_citations (grounding_chunks_of mixed_parts_response) =
      [[(''uri'', PyStr (ascii ''uri1'')), (''title'', PyStr (ascii ''title1''))]]"
    by (simp add: mixed_parts_response_def cited_def grounding_chunks_of_def web_citations_def)
  moreover have "text mixed_parts_response = Inl (Exception (ascii ''only text parts are supported''))"
    by (simp add: mixed_parts_response_def)
  ultimately have raised: "try_block (answering (Inr mixed_parts_response))
       (provider_call (keyword \<lparr>keyword = ascii ''generative AI''\<rparr>)) idle =
     (Inl (Exception (ascii ''only text parts are supported'')),
      \<lparr>calls = [provider_call (ascii ''generative AI'')],
       heap = [[[(''uri'', PyStr (ascii ''uri1'')), (''title'', PyStr (ascii ''title1''))]]]\<rparr>)"
    using try_block_returns [of "answering (Inr mixed_parts_response)"
        "provider_call (keyword \<lparr>keyword = ascii ''generative AI''\<rparr>)" mixed_parts_response idle]
      called
    by (simp add: idle_def)
  from called raised
    extraction_error_is_http_500 [of "answering (Inr mixed_parts_response)"
      "\<lparr>keyword = ascii ''generative AI''\<rparr>" mixed_parts_response idle
      "Exception (ascii ''only text parts are supported'')"
      "\<lparr>calls = [provider_call (ascii ''generative AI'')],
       heap = [[[(''uri'', PyStr (ascii ''uri1'')), (''title'', PyStr (ascii ''title1''))]]]\<rparr>"]
  show ?thesis by simp
qed

section \<open>The response model\<close>

lemma SearchSource_str:
  "SearchSource [(''uri'', PyStr u), (''title'', PyStr t)] =
     Some (JObj [(''uri'', JStr u), (''title'', JStr t)])"
  by (simp add: SearchSource_def)

lemma those_SearchSource:
  "list_all str_citation chunks \<Longrightarrow> \<exists>js. those (map SearchSource (web_citations chunks)) = Some js"
proof (induction chunks)
  case Nil
  then show ?case by (simp add: web_citations_Nil)
next
  case (Cons chunk rest)
  then obtain js where js: "those (map SearchSource (web_citations rest)) = Some js"
    by auto
  show ?case
  proof (cases "web chunk")
    case None
    with js show ?thesis by (simp add: web_citations_Cons)
  next
    case (Some w)
    with Cons.prems obtain u t where "uri w = PyStr u" "title w = PyStr t"
      by (cases "uri w"; cases "title w") (auto simp: str_citation_def)
    with Some js show ?thesis
      by (simp add: web_citations_Cons SearchSource_str)
  qed
qed

text \<open>
  C3. The route declares \<open>response_model=SearchResponse\<close>: every answer is to have a
  \<open>response\<close> that is a string and a \<open>source\<close> that is a list, never null and
  never missing. The handler does not keep to its own declaration. For a response whose
  \<open>text\<close> is \<open>None\<close> the function passes the \<open>None\<close> on as \<open>response\<close>;
  the dict fails the response model and the endpoint answers 500 with a plain-text body,
  not even the \<open>detail\<close> body of the handled error path. The same happens when a web
  citation has no title.
\<close>

theorem null_text_fails_response_model:
  "fst (generate_grounded_content (answering (Inr blocked_response)) (ascii ''generative AI'') idle) =
     Inr [(''response'', PyNone), (''source'', PyList 0)] \<and>
   fst (post_search_news (answering (Inr blocked_response)) \<lparr>keyword = ascii ''generative AI''\<rparr> idle) =
     \<lparr>status = 500, body = PlainText (ascii ''Internal Server Error'')\<rparr> \<and>
   fst (post_search_news (answering (Inr untitled_response)) \<lparr>keyword = ascii ''generative AI''\<rparr> idle) =
     \<lparr>status = 500, body = PlainText (ascii ''Internal Server Error'')\<rparr>"
proof -
  have blocked: "answering (Inr blocked_response) (provider_call (ascii ''generative AI'')) =
      Inr blocked_response"
    by (simp add: answering_def)
  have untitled: "answering (Inr untitled_response) (provider_call (ascii ''generative AI'')) =
      Inr untitled_response"
    by (simp add: answering_def)
  note blocked_run = generate_grounded_content_returns
    [of "answering (Inr blocked_response)" "ascii ''generative AI''" blocked_response idle,
      OF blocked]
  note untitled_run = generate_grounded_content_returns
    [of "answering (Inr untitled_response)" "ascii ''generative AI''" untitled_response idle,
      OF untitled]
  have "web_citations (grounding_chunks_of untitled_response) =
      [[(''uri'', PyStr (ascii ''uri1'')), (''title'', PyNone)]]"
    by (simp add: untitled_response_def grounded_def grounding_chunks_of_def web_citations_def)
  with untitled_run
  have "generate_grounded_content (answering (Inr untitled_response)) (ascii ''generative AI'') idle =
      (Inr [(''response'', PyStr (ascii ''- News A (url1)'')), (''source'', PyList 0)],
       \<lparr>calls = [provider_call (ascii ''generative AI'')],
        heap = [[[(''uri'', PyStr (ascii ''uri1'')), (''title'', PyNone)]]]\<rparr>)"
    by (simp add: untitled_response_def grounded_def idle_def)
  then have "fst (post_search_news (answering (Inr untitled_response))
      \<lparr>keyword = ascii ''generative AI''\<rparr> idle) = internal_server_error"
    by (simp add: post_search_news_def search_news_api_def SearchResponse_def SearchSource_def
        list_at_def)
  moreover from blocked_run
  have blocked_result: "generate_grounded_content (answering (Inr blocked_response))
      (ascii ''generative AI'') idle =
      (Inr [(''response'', PyNone), (''source'', PyList 0)],
       \<lparr>calls = [provider_call (ascii ''generative AI'')],
        heap = [web_citations (grounding_chunks_of blocked_response)]\<rparr>)"
    by (simp add: blocked_response_def idle_def)
  moreover from blocked_result
  have "fst (post_search_news (answering (Inr blocked_response))
      \<lparr>keyword = ascii ''generative AI''\<rparr> idle) = internal_server_error"
    by (simp add: post_search_news_def search_news_api_def SearchResponse_def)
  ultimately show ?thesis
    by (simp add: internal_server_error_def)
qed

text \<open>
  Where the declaration is met: for a provider response whose \<open>text\<close> reads as a
  string and whose web citations all have a string \<open>uri\<close> and a string \<open>title\<close>,
  the endpoint answers 200 with a body whose \<open>response\<close> is that string and whose
  \<open>source\<close> is a list, one object per web citation.
\<close>

theorem str_response_passes_response_model:
  assumes "generate_content (provider_call (keyword request)) = Inr r"
    and "text r = Inr (PyStr s)"
    and "list_all str_citation (grounding_chunks_of r)"
  shows "\<exists>js. those (map SearchSource (web_citations (grounding_chunks_of r))) = Some js \<and>
           fst (post_search_news generate_content request w) =
             \<lparr>status = 200, body = JSON (JObj [(''response'', JStr s), (''source'', JArr js)])\<rparr>"
proof -
  from those_SearchSource [OF assms(3)]
  obtain js where js: "those (map SearchSource (web_citations (grounding_chunks_of r))) = Some js"
    by blast
  with assms(1,2) have "fst (post_search_news generate_content request w) =
      \<lparr>status = 200, body = JSON (JObj [(''response'', JStr s), (''source'', JArr js)])\<rparr>"
    by (simp add: post_search_news_def search_news_api_def generate_grounded_content_returns
        SearchResponse_def list_at_def)
  with js show ?thesis by blast
qed

theorem str_response_passes_response_model_witness:
  "answering (Inr news_response) (provider_call (keyword \<lparr>keyword = ascii ''generative AI''\<rparr>)) =
     Inr news_response \<and>
   text news_response = Inr (PyStr news_text) \<and>
   list_all str_citation (grounding_chunks_of news_response) \<and>
   fst (post_search_news (answering (Inr news_response)) \<lparr>keyword = ascii ''generative AI''\<rparr> idle) =
     \<lparr>status = 200,
      body = JSON (JObj [(''response'', JStr news_text),
        (''source'', JArr [JObj [(''uri'', JStr (ascii ''uri1'')), (''title'', JStr (ascii ''title1''))],
                           JObj [(''uri'', JStr (ascii ''uri2'')), (''title'', JStr (ascii ''title2''))]])])\<rparr>"
proof -
  have called: "answering (Inr news_response)
      (provider_call (keyword \<lparr>keyword = ascii ''generative AI''\<rparr>)) = Inr news_response"
    by (simp add: answering_def)
  have read: "text news_response = Inr (PyStr news_text)"
    by (simp add: news_response_def grounded_def)
  have chunks: "grounding_chunks_of news_response =
      [cited ''uri1'' ''title1'', \<lparr>web = None\<rparr>, cited ''uri2'' ''title2'']"
    by (simp add: news_response_def grounded_def grounding_chunks_of_def)
  have strs: "list_all str_citation (grounding_chunks_of news_response)"
    by (simp add: chunks str_citation_def cited_def)
  have "those (map SearchSource (web_citations (grounding_chunks_of news_response))) =
      Some [JObj [(''uri'', JStr (ascii ''uri1'')), (''title'', JStr (ascii ''title1''))],
            JObj [(''uri'', JStr (ascii ''uri2'')), (''title'', JStr (ascii ''title2''))]]"
    by (simp add: chunks web_citations_def cited_def SearchSource_def)
  with called read strs
    str_response_passes_response_model [of "answering (Inr news_response)"
      "\<lparr>keyword = ascii ''generative AI''\<rparr>" news_response news_text idle]
  have "fst (post_search_news (answering (Inr news_response))
      \<lparr>keyword = ascii ''generative AI''\<rparr> idle) =
     \<lparr>status = 200,
      body = JSON (JObj [(''response'', JStr news_text),
        (''source'', JArr [JObj [(''uri'', JStr (ascii ''uri1'')), (''title'', JStr (ascii ''title1''))],
                           JObj [(''uri'', JStr (ascii ''uri2'')), (''title'', JStr (ascii ''title2''))]])])\<rparr>"
    by auto
  with called read strs show ?thesis by blast
qed

section \<open>Two calls\<close>

text \<open>
  C5. Each call allocates its own list. When two calls run one after the other on the
  same heap, whatever their keywords and provider responses, they return references to
  two different list objects; afterwards the first holds the citations of the first
  response only, the second those of the second response only, and the lists that
  existed before are as they were.
\<close>

theorem source_lists_do_not_mix:
  assumes "p1 (provider_call k1) = Inr r1" and "text r1 = Inr t1"
    and "p2 (provider_call k2) = Inr r2" and "text r2 = Inr t2"
  shows "(let (out1, w1) = generate_grounded_content p1 k1 w;
              (out2, w2) = generate_grounded_content p2 k2 w1
          in out1 = Inr [(''response'', t1), (''source'', PyList (length (heap w)))] \<and>
             out2 = Inr [(''response'', t2), (''source'', PyList (Suc (length (heap w))))] \<and>
             heap w2 = heap w @ [web_citations (grounding_chunks_of r1),
                                 web_citations (grounding_chunks_of r2)])"
  using assms by (simp add: generate_grounded_content_returns)

theorem source_lists_do_not_mix_witness:
  "answering (Inr news_response) (provider_call (ascii ''generative AI'')) = Inr news_response \<and>
   text news_response = Inr (PyStr news_text) \<and>
   answering (Inr other_response) (provider_call (ascii ''quantum'')) = Inr other_response \<and>
   text other_response = Inr (PyStr (ascii ''- News C (url3)'')) \<and>
   (let (out1, w1) = generate_grounded_content (answering (Inr news_response)) (ascii ''generative AI'') idle;
        (out2, w2) = generate_grounded_content (answering (Inr other_response)) (ascii ''quantum'') w1
    in out1 = Inr [(''response'', PyStr news_text), (''source'', PyList 0)] \<and>
       out2 = Inr [(''response'', PyStr (ascii ''- News C (url3)'')), (''source'', PyList 1)] \<and>
       heap w2 =
         [[[(''uri'', PyStr (ascii ''uri1'')), (''title'', PyStr (ascii ''title1''))],
           [(''uri'', PyStr (ascii ''uri2'')), (''title'', PyStr (ascii ''title2''))]],
          [[(''uri'', PyStr (ascii ''uri3'')), (''title'', PyStr (ascii ''title3''))]]])"
proof -
  have c1: "answering (Inr news_response) (provider_call (ascii ''generative AI'')) = Inr news_response"
    and c2: "answering (Inr other_response) (provider_call (ascii ''quantum'')) = Inr other_response"
    by (simp_all add: answering_def)
  have t1: "text news_response = Inr (PyStr news_text)"
    and t2: "text other_response = Inr (PyStr (ascii ''- News C (url3)''))"
    by (simp_all add: news_response_def other_response_def grounded_def)
  have lists: "web_citations (grounding_chunks_of news_response) =
      [[(''uri'', PyStr (ascii ''uri1'')), (''title'', PyStr (ascii ''title1''))],
       [(''uri'', PyStr (ascii ''uri2'')), (''title'', PyStr (ascii ''title2''))]]"
    "web_citations (grounding_chunks_of other_response) =
      [[(''uri'', PyStr (ascii ''uri3'')), (''title'', PyStr (ascii ''title3''))]]"
    by (simp_all add: news_response_def other_response_def grounded_def cited_def
        grounding_chunks_of_def web_citations_def)
  from c1 t1 c2 t2 lists
    source_lists_do_not_mix [of "answering (Inr news_response)" "ascii ''generative AI''"
      news_response "PyStr news_text" "answering (Inr other_response)" "ascii ''quantum''"
      other_response "PyStr (ascii ''- News C (url3)'')" idle]
  show ?thesis by (simp add: idle_def)
qed

section \<open>The empty keyword\<close>

text \<open>
  C7. With the empty keyword the function sends the provider the prompt with nothing
  between the quotation marks, and its result is what the provider's outcome makes it:
  the returned dict, or an error with status 500. It raises no error of its own.
\<close>

theorem empty_keyword_reaches_provider:
  "calls (snd (generate_grounded_content generate_content [] w)) =
     calls w @
       [\<lparr>model = gemini_model,
         contents = prompt_before_keyword @ prompt_after_keyword @ prompt_format_request,
         config = \<lparr>tools = [GoogleSearch]\<rparr>\<rparr>] \<and>
   fst (generate_grounded_content generate_content [] w) =
     (case generate_content (provider_call []) of
        Inl e \<Rightarrow> Inl \<lparr>status_code = 500, detail = error_prefix @ str e\<rparr>
      | Inr r \<Rightarrow>
          (case text r of
             Inl e \<Rightarrow> Inl \<lparr>status_code = 500, detail = error_prefix @ str e\<rparr>
           | Inr t \<Rightarrow> Inr [(''response'', t), (''source'', PyList (length (heap w)))]))"
proof (cases "generate_content (provider_call [])")
  case (Inl e)
  then show ?thesis
    by (simp add: generate_grounded_content_raises prompt_of_def)
next
  case (Inr r)
  then show ?thesis
    by (simp add: generate_grounded_content_returns prompt_of_def split: sum.split)
qed

section \<open>The callback route\<close>

text \<open>Requests are answered one after the other, each in the world the previous one left.\<close>

lemma serve_append:
  "serve g (requests @ later) w =
     (fst (serve g requests w) @ fst (serve g later (snd (serve g requests w))),
      snd (serve g later (snd (serve g requests w))))"
  by (induction requests arbitrary: w) (simp_all add: split_beta Let_def)

text \<open>
  C8. \<open>GET /callback\<close> answers 200 with the body \<open>{"status": "OK"}\<close>, whatever the
  globals of the process and the state of the world, and changes nothing; so it does
  after any sequence of earlier requests, whatever these were and however they ended.
\<close>

theorem callback_always_ok:
  "app g GET_callback w =
     (\<lparr>status = 200, body = JSON (JObj [(''status'', JStr (ascii ''OK''))])\<rparr>, w) \<and>
   serve g (requests @ [GET_callback]) w =
     (fst (serve g requests w) @
        [\<lparr>status = 200, body = JSON (JObj [(''status'', JStr (ascii ''OK''))])\<rparr>],
      snd (serve g requests w))"
  by (simp add: serve_append get_callback_def read_root_def)

section \<open>Start-up failures\<close>

text \<open>
  C6. When the credential is absent from the environment once \<open>.env\<close> has been
  loaded, the module raises \<open>ValueError\<close>; when it is there and the construction of
  the client raises, the module raises \<open>RuntimeError\<close> with that exception's message.
  Either way the process ends with the error and answers none of the requests.
\<close>

theorem startup_failure_is_fatal:
  assumes "load_dotenv environ ''GEMINI_API_KEY'' = None \<or>
           (load_dotenv environ ''GEMINI_API_KEY'' = Some key \<and> key \<noteq> [] \<and> Client key = Inl e)"
  shows "run_process load_dotenv Client environ requests w =
           Inl (if load_dotenv environ ''GEMINI_API_KEY'' = None
                then ValueError missing_key_message
                else RuntimeError (client_error_prefix @ str e))"
  using assms by (auto simp: run_process_def startup_def)

theorem startup_failure_is_fatal_witness:
  "(\<lambda>environ. environ) (Map.empty :: environ) ''GEMINI_API_KEY'' = None \<and>
   run_process (\<lambda>environ. environ) (\<lambda>key. Inr (answering (Inr news_response))) Map.empty
       [GET_callback] idle =
     Inl (ValueError missing_key_message) \<and>
   (\<lambda>environ. environ) [''GEMINI_API_KEY'' \<mapsto> ascii ''not-a-key''] ''GEMINI_API_KEY'' =
     Some (ascii ''not-a-key'') \<and>
   ascii ''not-a-key'' \<noteq> [] \<and>
   (\<lambda>key. Inl (Exception (ascii ''invalid credential''))) (ascii ''not-a-key'') =
     (Inl (Exception (ascii ''invalid credential'')) :: exception + provider) \<and>
   run_process (\<lambda>environ. environ) (\<lambda>key. Inl (Exception (ascii ''invalid credential'')))
       [''GEMINI_API_KEY'' \<mapsto> ascii ''not-a-key''] [GET_callback] idle =
     Inl (RuntimeError (client_error_prefix @ ascii ''invalid credential''))"
  using
    startup_failure_is_fatal [of "\<lambda>environ. environ" Map.empty "ascii ''not-a-key''"
      "\<lambda>key. Inr (answering (Inr news_response))" "Exception []" "[GET_callback]" idle]
    startup_failure_is_fatal [of "\<lambda>environ. environ" "[''GEMINI_API_KEY'' \<mapsto> ascii ''not-a-key'']"
      "ascii ''not-a-key''" "\<lambda>key. Inl (Exception (ascii ''invalid credential''))"
      "Exception (ascii ''invalid credential'')" "[GET_callback]" idle]
  by (simp add: ascii_def)

text \<open>
  C10. A credential that is the empty string fails the same test as a missing one:
  start-up ends with the same \<open>ValueError\<close>, whatever the constructor of the client
  would have done, so the constructor is not reached.
\<close>

theorem empty_credential_is_missing_credential:
  assumes "load_dotenv environ ''GEMINI_API_KEY'' = Some []"
    and "load_dotenv' environ' ''GEMINI_API_KEY'' = None"
  shows "startup load_dotenv Client environ = Inl (ValueError missing_key_message) \<and>
         startup load_dotenv Client environ = startup load_dotenv' Client' environ' \<and>
         run_process load_dotenv Client environ requests w = Inl (ValueError missing_key_message)"
  using assms by (simp add: run_process_def startup_def)

theorem empty_credential_is_missing_credential_witness:
  "(\<lambda>environ. environ) [''GEMINI_API_KEY'' \<mapsto> []] ''GEMINI_API_KEY'' = Some [] \<and>
   (\<lambda>environ. environ) (Map.empty :: environ) ''GEMINI_API_KEY'' = None \<and>
   startup (\<lambda>environ. environ) (\<lambda>key. Inl (Exception (ascii ''invalid credential'')))
       [''GEMINI_API_KEY'' \<mapsto> []] =
     Inl (ValueError missing_key_message) \<and>
   run_process (\<lambda>environ. environ) (\<lambda>key. Inl (Exception (ascii ''invalid credential'')))
       [''GEMINI_API_KEY'' \<mapsto> []] [GET_callback] idle =
     Inl (ValueError missing_key_message)"
  using
    empty_credential_is_missing_credential [of "\<lambda>environ. environ" "[''GEMINI_API_KEY'' \<mapsto> []]"
      "\<lambda>environ. environ" Map.empty "\<lambda>key. Inl (Exception (ascii ''invalid credential''))"
      "\<lambda>key. Inl (Exception (ascii ''invalid credential''))" "[GET_callback]" idle]
  by simp

end
